theory Spec2Isabelle
  imports Complex_Main "HOL-Library.Sublist"
begin

section \<open>The host scene: data model\<close>

text \<open>
  The script \<^verbatim>\<open>scripts/blender/extract_anatomy.py\<close> runs inside a host application and
  works on the host's scene through handles. The scene is modelled as an explicit store.
  Python strings are byte strings in UTF-8 (substring search on them agrees with substring
  search on code points). Geometry and transforms are kept symbolic: every host operator
  that computes geometry is a constructor, so that no numeric behaviour of the host is
  assumed. Triangle counts that only the host can compute, and Python's \<^verbatim>\<open>str.lower\<close>,
  are parameters (record \<open>host\<close>).
\<close>

datatype exn = RuntimeError | ReferenceError | AttributeError | IndexError | OSError

text \<open>
  Floating-point numbers are never computed with: \<open>PyFloat q\<close> is the Python float nearest
  to the rational \<open>q\<close> (as a float literal or the quotient of two integers gives it), and
  \<open>F32 x\<close> is the single-precision number that the host stores for the Python float \<open>x\<close>.
\<close>

datatype pyfloat = PyFloat rat

datatype float32 = F32 pyfloat

datatype prim = UvSphere pyfloat nat nat | Cylinder pyfloat pyfloat | Cube pyfloat

record modifier =
  md_name :: string
  md_type :: string
  decimate_type :: string
  ratio :: float32
  use_collapse_triangulate :: bool

datatype xform =
    XGiven nat
  | XIdentity
  | XScale pyfloat pyfloat pyfloat xform
  | XLocation pyfloat pyfloat pyfloat xform
  | XOriginSet xform geom
  | XLowered xform geom
and geom =
    GGiven nat
  | GPrim prim
  | GApplied xform geom
  | GJoined "(xform \<times> geom) list"
  | GModified modifier geom
  | GOriginSet xform geom

record mesh =
  me_name :: string
  me_geom :: geom
  me_tris :: nat
  materials :: "string list"
  uv_layers :: "string list"
  vertex_colors :: "string list"
  shape_keys :: "string list option"

datatype kind = CURVE | ARMATURE | EMPTY | CAMERA | LIGHT

datatype obdata = MeshData mesh | OtherData kind

datatype obj_type = MESH | NonMesh kind

datatype cref = SceneCollection | Coll nat

record object =
  ob_id :: nat
  ob_name :: string
  ob_data :: obdata
  matrix_world :: xform
  modifiers :: "modifier list"
  ob_select :: bool
  users_collection :: "cref list"

record collection =
  co_id :: nat
  co_name :: string
  co_in_scene :: bool

datatype path = Path string | Child path string

datatype level = INFO | WARN | ERROR

datatype frag = Txt string | Num nat | Frac pyfloat | Pth path | Exc exn

datatype event =
    Log level "frag list"
  | Traceback exn
  | Mkdir path
  | ExportGlb path "object list"

record bpy =
  objects :: "object list"
  collections :: "collection list"
  context_collection :: cref
  active :: "nat option"
  next_id :: nat
  events :: "event list"
  budget :: "nat option"

record host =
  str_lower :: "string \<Rightarrow> string"
  prim_tris :: "prim \<Rightarrow> nat"
  modified_tris :: "modifier \<Rightarrow> nat \<Rightarrow> nat"

fun ob_type :: "object \<Rightarrow> obj_type" where
  "ob_type ob = (case ob_data ob of MeshData m \<Rightarrow> MESH | OtherData k \<Rightarrow> NonMesh k)"

section \<open>State and exceptions\<close>

text \<open>
  A computation takes the scene and returns a value or a raised exception, with the scene
  as it is at that moment. The field \<open>budget\<close> is the fault model of the environment:
  \<open>Some k\<close> means that the next \<open>k\<close> calls into the environment (the directory creation and
  the host operators \<^verbatim>\<open>bpy.ops.*\<close>) succeed and the one after raises; \<open>None\<close> means that
  none raises.
\<close>

datatype 'a result = Ok 'a | Raise exn

type_synonym 'a M = "bpy \<Rightarrow> 'a result \<times> bpy"

definition ret :: "'a \<Rightarrow> 'a M" where
  "ret x = (\<lambda>s. (Ok x, s))"

definition raise :: "exn \<Rightarrow> 'a M" where
  "raise e = (\<lambda>s. (Raise e, s))"

definition bnd :: "'a M \<Rightarrow> ('a \<Rightarrow> 'b M) \<Rightarrow> 'b M" where
  "bnd m f = (\<lambda>s. case m s of (Ok x, s') \<Rightarrow> f x s' | (Raise e, s') \<Rightarrow> (Raise e, s'))"

definition gets :: "(bpy \<Rightarrow> 'a) \<Rightarrow> 'a M" where
  "gets g = (\<lambda>s. (Ok (g s), s))"

definition upd :: "(bpy \<Rightarrow> bpy) \<Rightarrow> unit M" where
  "upd f = (\<lambda>s. (Ok (), f s))"

definition env_call :: "exn \<Rightarrow> unit M" where
  "env_call e = (\<lambda>s. case budget s of
       None \<Rightarrow> (Ok (), s)
     | Some 0 \<Rightarrow> (Raise e, s)
     | Some (Suc k) \<Rightarrow> (Ok (), s\<lparr>budget := Some k\<rparr>))"

primrec for_each :: "'a list \<Rightarrow> ('a \<Rightarrow> unit M) \<Rightarrow> unit M" where
  "for_each [] body = ret ()"
| "for_each (x # xs) body = bnd (body x) (\<lambda>_. for_each xs body)"

definition emit :: "event \<Rightarrow> bpy \<Rightarrow> bpy" where
  "emit e s = s\<lparr>events := events s @ [e]\<rparr>"

definition log :: "level \<Rightarrow> frag list \<Rightarrow> unit M" where
  "log lvl msg = upd (emit (Log lvl msg))"

section \<open>The host's data interface\<close>

definition map_objects :: "(object \<Rightarrow> object) \<Rightarrow> bpy \<Rightarrow> bpy" where
  "map_objects f s = s\<lparr>objects := map f (objects s)\<rparr>"

definition at_id :: "nat \<Rightarrow> (object \<Rightarrow> object) \<Rightarrow> object \<Rightarrow> object" where
  "at_id i f ob = (if ob_id ob = i then f ob else ob)"

definition deref :: "nat \<Rightarrow> object M" where
  "deref i = (\<lambda>s. case find (\<lambda>ob. ob_id ob = i) (objects s) of
       None \<Rightarrow> (Raise ReferenceError, s)
     | Some ob \<Rightarrow> (Ok ob, s))"

definition update :: "nat \<Rightarrow> (object \<Rightarrow> object) \<Rightarrow> unit M" where
  "update i f = bnd (deref i) (\<lambda>_. upd (map_objects (at_id i f)))"

text \<open>Attribute access on a Python value that may be \<^verbatim>\<open>None\<close>.\<close>

definition attr :: "nat option \<Rightarrow> nat M" where
  "attr v = (case v of None \<Rightarrow> raise AttributeError | Some i \<Rightarrow> ret i)"

definition crefs :: "cref list \<Rightarrow> nat list" where
  "crefs cs = concat (map (\<lambda>c. case c of SceneCollection \<Rightarrow> [] | Coll n \<Rightarrow> [n]) cs)"

definition used_ids :: "bpy \<Rightarrow> nat list" where
  "used_ids s = map ob_id (objects s) @ map co_id (collections s)
     @ concat (map (\<lambda>ob. crefs (users_collection ob)) (objects s))
     @ crefs [context_collection s]
     @ (case active s of None \<Rightarrow> [] | Some a \<Rightarrow> [a])"

definition fresh_id :: "bpy \<Rightarrow> nat" where
  "fresh_id s = Suc (fold max (used_ids s) (next_id s))"

definition new_object :: "string \<Rightarrow> obdata \<Rightarrow> bpy \<Rightarrow> object" where
  "new_object name d s = \<lparr>ob_id = fresh_id s, ob_name = name, ob_data = d,
     matrix_world = XIdentity, modifiers = [], ob_select = False, users_collection = []\<rparr>"

definition objects_new :: "string \<Rightarrow> obdata \<Rightarrow> nat M" where
  "objects_new name d = (\<lambda>s. (Ok (fresh_id s),
     s\<lparr>objects := objects s @ [new_object name d s], next_id := fresh_id s\<rparr>))"

definition collections_new :: "string \<Rightarrow> nat M" where
  "collections_new name = (\<lambda>s. (Ok (fresh_id s),
     s\<lparr>collections := collections s @ [\<lparr>co_id = fresh_id s, co_name = name, co_in_scene = False\<rparr>],
       next_id := fresh_id s\<rparr>))"

definition scene_children_link :: "nat \<Rightarrow> unit M" where
  "scene_children_link c = upd (\<lambda>s. s\<lparr>collections :=
     map (\<lambda>co. if co_id co = c then co\<lparr>co_in_scene := True\<rparr> else co) (collections s)\<rparr>)"

definition coll_objects :: "nat \<Rightarrow> bpy \<Rightarrow> nat list" where
  "coll_objects c s = map ob_id (filter (\<lambda>ob. Coll c \<in> set (users_collection ob)) (objects s))"

definition copy_data :: "string \<Rightarrow> obdata \<Rightarrow> obdata option" where
  "copy_data name d = (case d of
       MeshData m \<Rightarrow> Some (MeshData (m\<lparr>me_name := name\<rparr>))
     | OtherData EMPTY \<Rightarrow> None
     | OtherData k \<Rightarrow> Some (OtherData k))"

definition select_set :: "nat \<Rightarrow> bool \<Rightarrow> unit M" where
  "select_set i b = update i (\<lambda>ob. ob\<lparr>ob_select := b\<rparr>)"

definition set_active :: "nat option \<Rightarrow> unit M" where
  "set_active v = upd (\<lambda>s. s\<lparr>active := v\<rparr>)"

definition remove_objects :: "nat list \<Rightarrow> bpy \<Rightarrow> bpy" where
  "remove_objects ids s = s\<lparr>objects := filter (\<lambda>ob. ob_id ob \<notin> set ids) (objects s),
     active := (case active s of None \<Rightarrow> None
                | Some a \<Rightarrow> if a \<in> set ids then None else Some a)\<rparr>"

definition remove_collection :: "nat \<Rightarrow> bpy \<Rightarrow> bpy" where
  "remove_collection c s = s\<lparr>collections := filter (\<lambda>co. co_id co \<noteq> c) (collections s),
     objects := map (\<lambda>ob. ob\<lparr>users_collection := filter (\<lambda>r. r \<noteq> Coll c) (users_collection ob)\<rparr>)
                    (objects s),
     context_collection := (if context_collection s = Coll c then SceneCollection
                            else context_collection s)\<rparr>"


text \<open>
  Names within a modifier stack are unique, and the script refers to its modifier by the
  name the host gave it (\<^verbatim>\<open>mod.name\<close>). When the name asked for is taken, the host
  appends the first free suffix \<^verbatim>\<open>.001\<close>, \<^verbatim>\<open>.002\<close>, ... (after \<^verbatim>\<open>.999\<close> it goes on with
  longer numbers; the model then takes a name longer than every name in use).
\<close>

definition digit :: "nat \<Rightarrow> char" where
  "digit k = char_of (48 + k mod 10)"

definition numbered :: "string \<Rightarrow> nat \<Rightarrow> string" where
  "numbered base k = base @ ''.'' @ [digit (k div 100), digit (k div 10), digit k]"

definition unique_name :: "string \<Rightarrow> string list \<Rightarrow> string" where
  "unique_name base names =
     (if base \<notin> set names then base
      else case find (\<lambda>c. c \<notin> set names) (map (numbered base) [1..<1000]) of
             Some c \<Rightarrow> c
           | None \<Rightarrow> base @ ''.'' @ replicate (Suc (fold max (map length names) 0)) CHR ''9'')"

definition modifiers_new :: "nat \<Rightarrow> string \<Rightarrow> string \<Rightarrow> string M" where
  "modifiers_new i name type = bnd (deref i) (\<lambda>ob0.
     bnd (update i (\<lambda>ob. ob\<lparr>modifiers := modifiers ob @
            [\<lparr>md_name = unique_name name (map md_name (modifiers ob0)), md_type = type,
              decimate_type = ''COLLAPSE'', ratio = F32 (PyFloat 1),
              use_collapse_triangulate = False\<rparr>]\<rparr>)) (\<lambda>_.
     ret (unique_name name (map md_name (modifiers ob0)))))"

definition modifier_set :: "nat \<Rightarrow> string \<Rightarrow> (modifier \<Rightarrow> modifier) \<Rightarrow> unit M" where
  "modifier_set i name f = update i (\<lambda>ob. ob\<lparr>modifiers :=
     map (\<lambda>md. if md_name md = name then f md else md) (modifiers ob)\<rparr>)"

section \<open>The host's operators\<close>

text \<open>
  Every operator \<^verbatim>\<open>bpy.ops.*\<close> is a call into the environment and may raise
  \<^verbatim>\<open>RuntimeError\<close>. The operators act on the selection and on the active object, as
  the host's do. A data-block gets the name that is asked for: the host's renaming of
  clashing names is outside the model.
\<close>

definition select_all_deselect :: "unit M" where
  "select_all_deselect = bnd (env_call RuntimeError)
     (\<lambda>_. upd (map_objects (\<lambda>ob. ob\<lparr>ob_select := False\<rparr>)))"

definition mesh_of :: "object \<Rightarrow> mesh list" where
  "mesh_of ob = (case ob_data ob of MeshData m \<Rightarrow> [m] | OtherData k \<Rightarrow> [])"

definition join_data :: "object \<Rightarrow> object list \<Rightarrow> obdata \<Rightarrow> obdata" where
  "join_data a others d = (case d of
       OtherData k \<Rightarrow> OtherData k
     | MeshData m \<Rightarrow> MeshData (m\<lparr>
         me_geom := GJoined ((matrix_world a, me_geom m)
            # concat (map (\<lambda>ob. map (\<lambda>x. (matrix_world ob, me_geom x)) (mesh_of ob)) others)),
         me_tris := me_tris m + sum_list (map me_tris (concat (map mesh_of others))),
         materials := materials m @ concat (map materials (concat (map mesh_of others))),
         uv_layers := uv_layers m @ concat (map uv_layers (concat (map mesh_of others))),
         vertex_colors := vertex_colors m
            @ concat (map vertex_colors (concat (map mesh_of others)))\<rparr>))"

definition object_join :: "unit M" where
  "object_join = bnd (env_call RuntimeError) (\<lambda>_. bnd (gets active) (\<lambda>act.
     case act of
       None \<Rightarrow> raise RuntimeError
     | Some a \<Rightarrow> bnd (deref a) (\<lambda>ao.
         if \<not> (ob_type ao = MESH \<and> ob_select ao) then raise RuntimeError
         else bnd (gets (\<lambda>s. filter (\<lambda>ob. ob_select ob \<and> ob_type ob = MESH \<and> ob_id ob \<noteq> a)
                                 (objects s))) (\<lambda>others.
              bnd (update a (\<lambda>ob. ob\<lparr>ob_data := join_data ob others (ob_data ob)\<rparr>)) (\<lambda>_.
              upd (remove_objects (map ob_id others)))))))"

definition apply_modifier :: "host \<Rightarrow> modifier \<Rightarrow> obdata \<Rightarrow> obdata" where
  "apply_modifier h md d = (case d of
       OtherData k \<Rightarrow> OtherData k
     | MeshData m \<Rightarrow> MeshData (m\<lparr>me_geom := GModified md (me_geom m),
                                  me_tris := modified_tris h md (me_tris m)\<rparr>))"

text \<open>
  The host refuses to apply a modifier to a mesh that has shape keys: the operator then
  raises \<^verbatim>\<open>RuntimeError\<close>, as it does when there is no active object or no modifier of
  that name.
\<close>

definition has_shape_keys :: "obdata \<Rightarrow> bool" where
  "has_shape_keys d = (case d of MeshData m \<Rightarrow> shape_keys m \<noteq> None | OtherData k \<Rightarrow> False)"

definition modifier_apply :: "host \<Rightarrow> string \<Rightarrow> unit M" where
  "modifier_apply h name = bnd (env_call RuntimeError) (\<lambda>_. bnd (gets active) (\<lambda>act.
     case act of
       None \<Rightarrow> raise RuntimeError
     | Some a \<Rightarrow> bnd (deref a) (\<lambda>ao.
         case find (\<lambda>md. md_name md = name) (modifiers ao) of
           None \<Rightarrow> raise RuntimeError
         | Some md \<Rightarrow>
             if has_shape_keys (ob_data ao) then raise RuntimeError
             else update a (\<lambda>ob. ob\<lparr>ob_data := apply_modifier h md (ob_data ob),
                                       modifiers := remove1 md (modifiers ob)\<rparr>))))"

definition bake :: "xform \<Rightarrow> obdata \<Rightarrow> obdata" where
  "bake x d = (case d of
       OtherData k \<Rightarrow> OtherData k
     | MeshData m \<Rightarrow> MeshData (m\<lparr>me_geom := GApplied x (me_geom m)\<rparr>))"

definition transform_apply :: "unit M" where
  "transform_apply = bnd (env_call RuntimeError) (\<lambda>_. upd (map_objects (\<lambda>ob.
     if ob_select ob
     then ob\<lparr>ob_data := bake (matrix_world ob) (ob_data ob), matrix_world := XIdentity\<rparr>
     else ob)))"

definition recentre :: "object \<Rightarrow> object" where
  "recentre ob = (case ob_data ob of
       OtherData k \<Rightarrow> ob
     | MeshData m \<Rightarrow> ob\<lparr>ob_data := MeshData (m\<lparr>me_geom := GOriginSet (matrix_world ob) (me_geom m)\<rparr>),
                         matrix_world := XOriginSet (matrix_world ob) (me_geom m)\<rparr>)"

definition origin_set :: "unit M" where
  "origin_set = bnd (env_call RuntimeError) (\<lambda>_. upd (map_objects (\<lambda>ob.
     if ob_select ob then recentre ob else ob)))"

definition primitive_add :: "host \<Rightarrow> string \<Rightarrow> string list \<Rightarrow> prim \<Rightarrow> unit M" where
  "primitive_add h name uvs p = bnd (env_call RuntimeError) (\<lambda>_.
     bnd (upd (map_objects (\<lambda>ob. ob\<lparr>ob_select := False\<rparr>))) (\<lambda>_.
     bnd (objects_new name (MeshData \<lparr>me_name = name, me_geom = GPrim p, me_tris = prim_tris h p,
            materials = [], uv_layers = uvs, vertex_colors = [], shape_keys = None\<rparr>)) (\<lambda>i.
     bnd (gets context_collection) (\<lambda>c.
     bnd (update i (\<lambda>ob. ob\<lparr>ob_select := True, users_collection := [c]\<rparr>)) (\<lambda>_.
     set_active (Some i))))))"

definition export_scene_gltf :: "path \<Rightarrow> unit M" where
  "export_scene_gltf filepath = bnd (env_call RuntimeError) (\<lambda>_.
     bnd (gets (\<lambda>s. filter ob_select (objects s))) (\<lambda>sel.
     upd (emit (ExportGlb filepath sel))))"

definition mkdir :: "path \<Rightarrow> unit M" where
  "mkdir p = bnd (env_call OSError) (\<lambda>_. upd (emit (Mkdir p)))"

section \<open>Configuration\<close>

definition MESH_PATTERNS :: "(string \<times> string list) list" where
  "MESH_PATTERNS =
    [(''Body'', [''skin'', ''peau'', ''body'', ''corps'', ''integument'', ''epiderm'', ''dermis'',
                 ''cutaneous'']),
     (''Veins'', [''vein'', ''veine'', ''artery'', ''art'' @ [CHR 0xC3, CHR 0xA8] @ ''re'', ''artere'',
                  ''vessel'', ''vaisseau'', ''circulat'', ''blood'', ''sang'', ''aorta'', ''aorte'',
                  ''vascular'', ''cardiovascular'']),
     (''Brain'', [''brain'', ''cerveau'', ''cerebr'', ''encephal'', ''cortex'', ''cerebellum'',
                  ''cervelet'', ''neural'']),
     (''Heart'', [''heart'', ''coeur'', ''c'' @ [CHR 0xC5, CHR 0x93] @ ''ur'', ''cardiac'',
                  ''cardiaque'', ''ventricle'', ''ventricul'', ''atrium'', ''auricle''])]"

definition TARGET_TRIANGLES :: "(string \<times> nat) list" where
  "TARGET_TRIANGLES = [(''Body'', 20000), (''Veins'', 30000), (''Brain'', 15000), (''Heart'', 10000)]"

datatype angle = Radians int

definition POSE_TRANSFORMS :: "(string \<times> (string \<times> angle \<times> angle \<times> angle) list) list" where
  "POSE_TRANSFORMS =
    [(''open'', [(''shoulder_l'', Radians 0, Radians 0, Radians (- 80)),
                 (''shoulder_r'', Radians 0, Radians 0, Radians 80),
                 (''arm_l'', Radians 0, Radians 0, Radians 0),
                 (''arm_r'', Radians 0, Radians 0, Radians 0)]),
     (''closed'', [(''shoulder_l'', Radians 0, Radians 0, Radians (- 10)),
                   (''shoulder_r'', Radians 0, Radians 0, Radians 10),
                   (''arm_l'', Radians 0, Radians 0, Radians 0),
                   (''arm_r'', Radians 0, Radians 0, Radians 0)])]"


section \<open>The script: utility functions\<close>

text \<open>Python's \<^verbatim>\<open>pattern in name\<close> on strings.\<close>

fun contains :: "string \<Rightarrow> string \<Rightarrow> bool" where
  "contains p [] = (p = [])"
| "contains p (c # cs) = (prefix p (c # cs) \<or> contains p cs)"

text \<open>The inner loop of \<^verbatim>\<open>find_meshes_by_pattern\<close>, which stops at the first match.\<close>

fun matches_any :: "host \<Rightarrow> string \<Rightarrow> string list \<Rightarrow> bool" where
  "matches_any h name_lower [] = False"
| "matches_any h name_lower (pattern # patterns) =
     (if contains (str_lower h pattern) name_lower then True
      else matches_any h name_lower patterns)"

definition find_step :: "host \<Rightarrow> string list \<Rightarrow> object \<Rightarrow> nat list \<Rightarrow> nat list" where
  "find_step h patterns ob matches =
     (if ob_type ob \<noteq> MESH then matches
      else if matches_any h (str_lower h (ob_name ob)) patterns then matches @ [ob_id ob]
      else matches)"

definition find_meshes_by_pattern :: "host \<Rightarrow> string list \<Rightarrow> nat list M" where
  "find_meshes_by_pattern h patterns = gets (\<lambda>s. fold (find_step h patterns) (objects s) [])"

definition get_mesh_triangle_count :: "host \<Rightarrow> nat option \<Rightarrow> nat M" where
  "get_mesh_triangle_count h obj = bnd (attr obj) (\<lambda>i. bnd (deref i) (\<lambda>ob.
     case ob_data ob of
       OtherData k \<Rightarrow> ret 0
     | MeshData m \<Rightarrow> ret (fold (modified_tris h) (modifiers ob) (me_tris m))))"

definition name_of :: "nat option \<Rightarrow> string M" where
  "name_of obj = bnd (attr obj) (\<lambda>i. bnd (deref i) (\<lambda>ob. ret (ob_name ob)))"

definition duplicate_object :: "nat option \<Rightarrow> string \<Rightarrow> nat M" where
  "duplicate_object obj name = bnd (attr obj) (\<lambda>i. bnd (deref i) (\<lambda>ob.
     case copy_data name (ob_data ob) of
       None \<Rightarrow> raise AttributeError
     | Some new_mesh \<Rightarrow>
         bnd (objects_new name new_mesh) (\<lambda>new_obj.
         bnd (update new_obj (\<lambda>n. n\<lparr>matrix_world := matrix_world ob\<rparr>)) (\<lambda>_.
         bnd (gets context_collection) (\<lambda>c.
         bnd (update new_obj (\<lambda>n. n\<lparr>users_collection := users_collection n @ [c]\<rparr>)) (\<lambda>_.
         ret new_obj))))))"

fun duplicate_all :: "nat list \<Rightarrow> string \<Rightarrow> nat list \<Rightarrow> nat list M" where
  "duplicate_all [] name duplicates = ret duplicates"
| "duplicate_all (obj # objs) name duplicates =
     bnd (duplicate_object (Some obj) name) (\<lambda>dup.
     bnd (select_set dup True) (\<lambda>_.
     duplicate_all objs name (duplicates @ [dup])))"

definition rename :: "string \<Rightarrow> object \<Rightarrow> object" where
  "rename name ob = ob\<lparr>ob_name := name,
     ob_data := (case ob_data ob of MeshData m \<Rightarrow> MeshData (m\<lparr>me_name := name\<rparr>)
                                  | OtherData k \<Rightarrow> OtherData k)\<rparr>"

definition join_meshes :: "nat list \<Rightarrow> string \<Rightarrow> nat option M" where
  "join_meshes objs name =
     (if objs = [] then ret None
      else if length objs = 1 then
        bnd (duplicate_object (Some (hd objs)) name) (\<lambda>result. ret (Some result))
      else
        bnd select_all_deselect (\<lambda>_.
        bnd (duplicate_all objs (name @ ''_part'') []) (\<lambda>duplicates.
        case duplicates of
          [] \<Rightarrow> raise IndexError
        | d # ds \<Rightarrow>
            bnd (set_active (Some d)) (\<lambda>_.
            bnd object_join (\<lambda>_.
            bnd (gets active) (\<lambda>result.
            bnd (attr result) (\<lambda>r.
            bnd (update r (rename name)) (\<lambda>_.
            ret result))))))))"

definition decimate_mesh :: "host \<Rightarrow> nat option \<Rightarrow> nat \<Rightarrow> unit M" where
  "decimate_mesh h obj target_triangles =
     bnd (get_mesh_triangle_count h obj) (\<lambda>current_tris.
     if current_tris \<le> target_triangles then
       bnd (name_of obj) (\<lambda>nm.
       log INFO [Txt ''  '', Txt nm, Txt '': '', Num current_tris, Txt '' tris (no decimation needed)''])
     else
       bnd (attr obj) (\<lambda>i.
       bnd (modifiers_new i ''Decimate'' ''DECIMATE'') (\<lambda>mod_name.
       bnd (modifier_set i mod_name (\<lambda>md. md\<lparr>decimate_type := ''COLLAPSE''\<rparr>)) (\<lambda>_.
       bnd (modifier_set i mod_name (\<lambda>md. md\<lparr>ratio :=
              F32 (PyFloat (of_nat target_triangles / of_nat current_tris))\<rparr>)) (\<lambda>_.
       bnd (modifier_set i mod_name (\<lambda>md. md\<lparr>use_collapse_triangulate := True\<rparr>)) (\<lambda>_.
       bnd (set_active obj) (\<lambda>_.
       bnd (modifier_apply h mod_name) (\<lambda>_.
       bnd (get_mesh_triangle_count h obj) (\<lambda>new_tris.
       bnd (name_of obj) (\<lambda>nm.
       log INFO [Txt ''  '', Txt nm, Txt '': '', Num current_tris, Txt '' -> '', Num new_tris,
                 Txt '' tris (ratio: '', Frac (PyFloat (of_nat target_triangles / of_nat current_tris)),
                 Txt '')'']))))))))))"

definition apply_all_transforms :: "nat option \<Rightarrow> unit M" where
  "apply_all_transforms obj =
     bnd (set_active obj) (\<lambda>_.
     bnd (attr obj) (\<lambda>i.
     bnd (select_set i True) (\<lambda>_.
     bnd transform_apply (\<lambda>_.
     select_set i False))))"

text \<open>The two \<^verbatim>\<open>while\<close> loops of \<^verbatim>\<open>cleanup_mesh\<close> remove the first layer until none is left.\<close>

function remove_layers :: "string list \<Rightarrow> string list" where
  "remove_layers layers = (if layers \<noteq> [] then remove_layers (remove1 (hd layers) layers) else layers)"
  by pat_completeness auto
termination
  by (relation "measure length") (auto simp: length_remove1)

declare remove_layers.simps [simp del]

definition cleanup_data :: "obdata \<Rightarrow> obdata" where
  "cleanup_data d = (case d of
       OtherData k \<Rightarrow> OtherData k
     | MeshData mesh \<Rightarrow> MeshData (
         let m1 = mesh\<lparr>materials := []\<rparr>;
             m2 = m1\<lparr>uv_layers := remove_layers (uv_layers m1)\<rparr>;
             m3 = m2\<lparr>vertex_colors := remove_layers (vertex_colors m2)\<rparr>
         in if shape_keys m3 \<noteq> None then m3\<lparr>shape_keys := None\<rparr> else m3))"

definition cleanup_mesh :: "nat option \<Rightarrow> unit M" where
  "cleanup_mesh obj = bnd (attr obj) (\<lambda>i. bnd (deref i) (\<lambda>ob.
     case ob_data ob of
       OtherData k \<Rightarrow> raise AttributeError
     | MeshData m \<Rightarrow> update i (\<lambda>ob. ob\<lparr>ob_data := cleanup_data (ob_data ob)\<rparr>)))"

definition lower_to_floor :: "object \<Rightarrow> object" where
  "lower_to_floor ob = (case ob_data ob of
       OtherData k \<Rightarrow> ob
     | MeshData m \<Rightarrow> ob\<lparr>matrix_world := XLowered (matrix_world ob) (me_geom m)\<rparr>)"

definition center_origin_to_floor :: "nat option \<Rightarrow> unit M" where
  "center_origin_to_floor obj =
     bnd (set_active obj) (\<lambda>_.
     bnd (attr obj) (\<lambda>i.
     bnd (select_set i True) (\<lambda>_.
     bnd origin_set (\<lambda>_.
     bnd (update i lower_to_floor) (\<lambda>_.
     select_set i False)))))"


section \<open>The script: extraction, processing, export\<close>

text \<open>A Python dictionary keeps its keys in insertion order.\<close>

fun dict_set :: "('k \<times> 'v) list \<Rightarrow> 'k \<Rightarrow> 'v \<Rightarrow> ('k \<times> 'v) list" where
  "dict_set [] k v = [(k, v)]"
| "dict_set ((k', v') # kvs) k v =
     (if k' = k then (k, v) # kvs else (k', v') # dict_set kvs k v)"

definition create_placeholder_mesh :: "host \<Rightarrow> string \<Rightarrow> nat option M" where
  "create_placeholder_mesh h name =
     bnd (if name = ''Body'' then
            bnd (primitive_add h ''Sphere'' [''UVMap''] (UvSphere (PyFloat 1) 32 16)) (\<lambda>_.
            bnd (gets active) (\<lambda>obj.
            bnd (attr obj) (\<lambda>i.
            bnd (update i (\<lambda>ob. ob\<lparr>matrix_world := XScale (PyFloat (3 / 10)) (PyFloat (1 / 4)) (PyFloat (4 / 5)) (matrix_world ob)\<rparr>)) (\<lambda>_.
            ret obj))))
          else if name = ''Heart'' then
            bnd (primitive_add h ''Sphere'' [''UVMap''] (UvSphere (PyFloat (1 / 10)) 16 8)) (\<lambda>_.
            bnd (gets active) (\<lambda>obj.
            bnd (attr obj) (\<lambda>i.
            bnd (update i (\<lambda>ob. ob\<lparr>matrix_world := XLocation (PyFloat 0) (PyFloat 0) (PyFloat (1 / 2)) (matrix_world ob)\<rparr>)) (\<lambda>_.
            ret obj))))
          else if name = ''Brain'' then
            bnd (primitive_add h ''Sphere'' [''UVMap''] (UvSphere (PyFloat (3 / 20)) 24 12)) (\<lambda>_.
            bnd (gets active) (\<lambda>obj.
            bnd (attr obj) (\<lambda>i.
            bnd (update i (\<lambda>ob. ob\<lparr>matrix_world := XLocation (PyFloat 0) (PyFloat 0) (PyFloat (9 / 10)) (matrix_world ob)\<rparr>)) (\<lambda>_.
            ret obj))))
          else if name = ''Veins'' then
            bnd (primitive_add h ''Cylinder'' [''UVMap''] (Cylinder (PyFloat (1 / 100)) (PyFloat 1))) (\<lambda>_.
            gets active)
          else
            bnd (primitive_add h ''Cube'' [''UVMap''] (Cube (PyFloat (1 / 2)))) (\<lambda>_.
            gets active)) (\<lambda>obj.
     bnd (attr obj) (\<lambda>i.
     bnd (update i (rename name)) (\<lambda>_.
     bnd (log WARN [Txt ''  Created placeholder for '', Txt name]) (\<lambda>_.
     ret obj))))"

definition extract_one ::
  "host \<Rightarrow> string \<times> string list \<Rightarrow> (string \<times> nat option) list \<Rightarrow> (string \<times> nat option) list M" where
  "extract_one h kv extracted = (case kv of (mesh_name, patterns) \<Rightarrow>
     bnd (find_meshes_by_pattern h patterns) (\<lambda>found.
     if found = [] then
       bnd (log WARN [Txt ''  '', Txt mesh_name, Txt '': NOT FOUND - will create placeholder'']) (\<lambda>_.
       bnd (create_placeholder_mesh h mesh_name) (\<lambda>obj.
       ret (dict_set extracted mesh_name obj)))
     else
       bnd (log INFO [Txt ''  '', Txt mesh_name, Txt '': Found '', Num (length found),
                      Txt '' matching objects'']) (\<lambda>_.
       bnd (for_each (take 5 found) (\<lambda>obj.
              bnd (name_of (Some obj)) (\<lambda>nm. log INFO [Txt ''    - '', Txt nm]))) (\<lambda>_.
       bnd (join_meshes found mesh_name) (\<lambda>obj.
       ret (dict_set extracted mesh_name obj))))))"

fun extract_loop ::
  "host \<Rightarrow> (string \<times> string list) list \<Rightarrow> (string \<times> nat option) list \<Rightarrow> (string \<times> nat option) list M" where
  "extract_loop h [] extracted = ret extracted"
| "extract_loop h (kv # kvs) extracted =
     bnd (extract_one h kv extracted) (\<lambda>extracted'. extract_loop h kvs extracted')"

definition extract_anatomy_meshes :: "host \<Rightarrow> (string \<times> nat option) list M" where
  "extract_anatomy_meshes h =
     bnd (log INFO [Txt ''Searching for anatomy meshes in Z-Anatomy...'']) (\<lambda>_.
     extract_loop h MESH_PATTERNS [])"

definition target_for :: "string \<Rightarrow> nat" where
  "target_for name = (case map_of TARGET_TRIANGLES name of None \<Rightarrow> 20000 | Some t \<Rightarrow> t)"

definition process_meshes :: "host \<Rightarrow> (string \<times> nat option) list \<Rightarrow> unit M" where
  "process_meshes h meshes =
     bnd (log INFO [Txt ''Processing meshes...'']) (\<lambda>_.
     for_each meshes (\<lambda>kv. case kv of (name, obj) \<Rightarrow>
       bnd (log INFO [Txt ''Processing '', Txt name, Txt ''...'']) (\<lambda>_.
       bnd (apply_all_transforms obj) (\<lambda>_.
       bnd (decimate_mesh h obj (target_for name)) (\<lambda>_.
       bnd (cleanup_mesh obj) (\<lambda>_.
       apply_all_transforms obj))))))"

definition unlink_all :: "object \<Rightarrow> object" where
  "unlink_all ob = ob\<lparr>users_collection :=
     fold removeAll (users_collection ob) (users_collection ob)\<rparr>"

definition create_pose_collection :: "(string \<times> nat option) list \<Rightarrow> string \<Rightarrow> nat M" where
  "create_pose_collection meshes pose_name =
     bnd (log INFO [Txt ''Creating '', Txt pose_name, Txt '' pose collection...'']) (\<lambda>_.
     bnd (collections_new (''HumanLayer_'' @ pose_name)) (\<lambda>collection.
     bnd (scene_children_link collection) (\<lambda>_.
     bnd (for_each meshes (\<lambda>kv. case kv of (name, source_obj) \<Rightarrow>
            bnd (duplicate_object source_obj name) (\<lambda>new_obj.
            bnd (update new_obj unlink_all) (\<lambda>_.
            update new_obj (\<lambda>ob. ob\<lparr>users_collection := users_collection ob @ [Coll collection]\<rparr>))))) (\<lambda>_.
     ret collection))))"

definition export_collection_to_glb :: "nat \<Rightarrow> path \<Rightarrow> unit M" where
  "export_collection_to_glb collection output_path =
     bnd (log INFO [Txt ''Exporting to '', Pth output_path, Txt ''...'']) (\<lambda>_.
     bnd select_all_deselect (\<lambda>_.
     bnd (gets (coll_objects collection)) (\<lambda>objs.
     bnd (for_each objs (\<lambda>obj. select_set obj True)) (\<lambda>_.
     bnd (export_scene_gltf output_path) (\<lambda>_.
     log INFO [Txt ''  Exported: '', Pth output_path])))))"

definition cleanup_step :: "collection \<Rightarrow> bpy \<Rightarrow> bpy" where
  "cleanup_step coll s =
     (if prefix ''HumanLayer_'' (co_name coll)
      then remove_collection (co_id coll) (remove_objects (coll_objects (co_id coll) s) s)
      else s)"

definition cleanup_scene :: "bpy \<Rightarrow> bpy" where
  "cleanup_scene s = fold cleanup_step (collections s) s"

section \<open>The script: entry point\<close>

fun index_of :: "'a \<Rightarrow> 'a list \<Rightarrow> nat" where
  "index_of x [] = 0"
| "index_of x (y # ys) = (if y = x then 0 else Suc (index_of x ys))"

definition script_argv :: "string list \<Rightarrow> string list" where
  "script_argv argv = (if ''--'' \<in> set argv then drop (index_of ''--'' argv + 1) argv else [])"

definition parse_output :: "string list \<Rightarrow> string" where
  "parse_output argv = fold (\<lambda>i output_dir.
       if argv ! i = ''--output'' \<and> i + 1 < length argv then argv ! (i + 1) else output_dir)
     [0..<length argv] ''public/models/human''"

datatype outcome = Returned | SysExit nat | Uncaught exn

definition prologue :: "string list \<Rightarrow> path M" where
  "prologue sys_argv =
     bnd (log INFO [Txt (replicate 60 CHR ''='')]) (\<lambda>_.
     bnd (log INFO [Txt ''Z-Anatomy Model Extractor'']) (\<lambda>_.
     bnd (log INFO [Txt (replicate 60 CHR ''='')]) (\<lambda>_.
     bnd (mkdir (Path (parse_output (script_argv sys_argv)))) (\<lambda>_.
     bnd (log INFO [Txt ''Output directory: '', Pth (Path (parse_output (script_argv sys_argv)))]) (\<lambda>_.
     ret (Path (parse_output (script_argv sys_argv))))))))"

definition try_body :: "host \<Rightarrow> path \<Rightarrow> unit M" where
  "try_body h output_path =
     bnd (extract_anatomy_meshes h) (\<lambda>meshes.
     bnd (process_meshes h meshes) (\<lambda>_.
     bnd (for_each (map snd meshes) center_origin_to_floor) (\<lambda>_.
     bnd (create_pose_collection meshes ''open'') (\<lambda>open_collection.
     bnd (create_pose_collection meshes ''closed'') (\<lambda>closed_collection.
     bnd (export_collection_to_glb open_collection (Child output_path ''pose-open.glb'')) (\<lambda>_.
     bnd (export_collection_to_glb closed_collection (Child output_path ''pose-closed.glb'')) (\<lambda>_.
     bnd (log INFO [Txt (replicate 60 CHR ''='')]) (\<lambda>_.
     bnd (log INFO [Txt ''Export complete!'']) (\<lambda>_.
     bnd (log INFO [Txt (replicate 60 CHR ''='')]) (\<lambda>_.
     bnd (log INFO [Txt []]) (\<lambda>_.
     bnd (log INFO [Txt ''Next steps:'']) (\<lambda>_.
     bnd (log INFO [Txt ''1. Run: npm run validate-models'']) (\<lambda>_.
     bnd (log INFO [Txt ''2. Test in the visualizer with an audio file'']) (\<lambda>_.
     log INFO [Txt []]))))))))))))))"

text \<open>
  \<^verbatim>\<open>main\<close>: the directory is created outside the \<^verbatim>\<open>try\<close>, so an exception there leaves
  \<^verbatim>\<open>main\<close> uncaught. Inside the \<^verbatim>\<open>try\<close>, an exception is logged, its traceback printed,
  and \<^verbatim>\<open>sys.exit(1)\<close> raises \<^verbatim>\<open>SystemExit\<close>; the \<^verbatim>\<open>finally\<close> clause runs
  \<^verbatim>\<open>cleanup_scene\<close> on both paths.
\<close>

definition main :: "host \<Rightarrow> string list \<Rightarrow> bpy \<Rightarrow> outcome \<times> bpy" where
  "main h sys_argv s0 = (case prologue sys_argv s0 of
       (Raise e, s) \<Rightarrow> (Uncaught e, s)
     | (Ok output_path, s) \<Rightarrow> (case try_body h output_path s of
           (Ok u, s') \<Rightarrow> (Returned, cleanup_scene s')
         | (Raise e, s') \<Rightarrow>
             (SysExit 1, cleanup_scene
                (emit (Traceback e) (emit (Log ERROR [Txt ''Error: '', Exc e]) s')))))"

text \<open>The exit code of the host process; after an uncaught exception it is the host's choice.\<close>

fun exit_code :: "outcome \<Rightarrow> nat option" where
  "exit_code Returned = Some 0"
| "exit_code (SysExit n) = Some n"
| "exit_code (Uncaught e) = None"


section \<open>Specifications and example inputs\<close>

text \<open>
  What \<^verbatim>\<open>find_meshes_by_pattern\<close> is to return, in the words of its docstring: the mesh
  objects whose lowercased name has one of the lowercased patterns as a substring.
\<close>

definition wanted :: "host \<Rightarrow> string list \<Rightarrow> object \<Rightarrow> bool" where
  "wanted h patterns ob \<longleftrightarrow> ob_type ob = MESH \<and>
     (\<exists>p \<in> set patterns. sublist (str_lower h p) (str_lower h (ob_name ob)))"

text \<open>
  A host for the examples. Its \<open>str_lower\<close> is Python's on ASCII strings; the triangle
  counts are those of the host's primitives, and a decimation by ratio \<open>r\<close> leaves
  \<open>\<lfloor>r * n\<rfloor>\<close> triangles.
\<close>

definition ascii_lower :: "string \<Rightarrow> string" where
  "ascii_lower = map (\<lambda>c. if (65::nat) \<le> of_char c \<and> (of_char c :: nat) \<le> 90
                            then char_of (of_char c + (32::nat)) else c)"

definition example_host :: host where
  "example_host = \<lparr>str_lower = ascii_lower,
     prim_tris = (\<lambda>p. case p of UvSphere r segs rings \<Rightarrow> 2 * segs * (rings - 1)
                               | Cylinder r d \<Rightarrow> 124 | Cube sz \<Rightarrow> 12),
     modified_tris = (\<lambda>md n. case ratio md of F32 (PyFloat q) \<Rightarrow> nat \<lfloor>q * of_nat n\<rfloor>)\<rparr>"

definition example_mesh :: "nat \<Rightarrow> mesh" where
  "example_mesh n = \<lparr>me_name = ''Mesh'', me_geom = GGiven n, me_tris = 50000,
     materials = [''Skin''], uv_layers = [''UVMap'', ''Detail''], vertex_colors = [''Col''],
     shape_keys = Some [''Basis'']\<rparr>"

definition example_object :: "nat \<Rightarrow> string \<Rightarrow> obdata \<Rightarrow> cref \<Rightarrow> object" where
  "example_object i name d c = \<lparr>ob_id = i, ob_name = name, ob_data = d, matrix_world = XGiven i,
     modifiers = [], ob_select = False, users_collection = [c]\<rparr>"

definition example_scene :: bpy where
  "example_scene = \<lparr>objects = [example_object 11 ''Skin.L'' (MeshData (example_mesh 11)) SceneCollection,
                                 example_object 12 ''Armature'' (OtherData ARMATURE) SceneCollection,
                                 example_object 13 ''HEART'' (MeshData (example_mesh 13)) SceneCollection],
     collections = [], context_collection = SceneCollection, active = None, next_id = 0,
     events = [], budget = None\<rparr>"

section \<open>Properties\<close>

subsection \<open>Basic facts\<close>

lemmas monad_defs = bnd_def ret_def raise_def gets_def upd_def attr_def

lemma contains_sublist: "contains p s \<longleftrightarrow> sublist p s"
  by (induction s) (auto simp: sublist_Cons_right)

lemma matches_any_iff:
  "matches_any h n ps \<longleftrightarrow> (\<exists>p \<in> set ps. sublist (str_lower h p) n)"
  by (induction ps) (auto simp: contains_sublist)

lemma fold_find_step:
  "fold (find_step h ps) obs acc = acc @ map ob_id (filter (wanted h ps) obs)"
  by (induction obs arbitrary: acc) (auto simp: find_step_def wanted_def matches_any_iff)

lemma count_distinct_filter:
  "distinct (map f xs) \<Longrightarrow> x \<in> set xs \<Longrightarrow>
     count_list (map f (filter Q xs)) (f x) = (if Q x then 1 else 0)"
proof (induction xs)
  case Nil then show ?case by simp
next
  case (Cons a xs)
  have notin: "f a \<notin> f ` set (filter Q xs)" using Cons.prems(1) by auto
  show ?case
  proof (cases "x = a")
    case True
    then show ?thesis using notin by (auto simp: count_list_0_iff)
  next
    case False
    then have "x \<in> set xs" "f x \<noteq> f a" using Cons.prems by (auto simp: image_iff)
    then show ?thesis using Cons by auto
  qed
qed

lemma remove_layers_Nil: "remove_layers xs = []"
proof (induction xs rule: remove_layers.induct)
  case (1 layers)
  show ?case by (subst remove_layers.simps) (use 1 in auto)
qed

lemma find_map_at_id:
  "(\<And>x. ob_id (f x) = ob_id x) \<Longrightarrow>
   find (\<lambda>x. ob_id x = i) (map (at_id i f) obs) = map_option f (find (\<lambda>x. ob_id x = i) obs)"
  by (induction obs) (auto simp: at_id_def)

lemma update_live:
  assumes "\<And>x. ob_id (f x) = ob_id x" "deref i s = (Ok ob, s)"
  shows "update i f s = (Ok (), map_objects (at_id i f) s)"
    and "deref i (map_objects (at_id i f) s) = (Ok (f ob), map_objects (at_id i f) s)"
  using assms
  by (auto simp: update_def monad_defs deref_def map_objects_def find_map_at_id
           split: option.splits)

lemma cleanup_data_clears:
  "cleanup_data (MeshData m) = MeshData m' \<Longrightarrow>
     materials m' = [] \<and> uv_layers m' = [] \<and> vertex_colors m' = [] \<and> shape_keys m' = None"
  by (auto simp: cleanup_data_def Let_def remove_layers_Nil split: if_splits)

lemmas example_defs = example_scene_def example_object_def example_mesh_def example_host_def

lemma ascii_lower_Skin_L: "ascii_lower ''Skin.L'' = ''skin.l''" by code_simp
lemma ascii_lower_Armature: "ascii_lower ''Armature'' = ''armature''" by code_simp
lemma ascii_lower_HEART: "ascii_lower ''HEART'' = ''heart''" by code_simp
lemma ascii_lower_SKIN: "ascii_lower ''SKIN'' = ''skin''" by code_simp
lemma ascii_lower_coeur: "ascii_lower ''coeur'' = ''coeur''" by code_simp

lemmas ascii_lower_examples = ascii_lower_Skin_L ascii_lower_Armature ascii_lower_HEART
  ascii_lower_SKIN ascii_lower_coeur

subsection \<open>Searching the scene\<close>

text \<open>
  C4. \<^verbatim>\<open>find_meshes_by_pattern(patterns)\<close> returns exactly the objects of the scene whose
  type is \<^verbatim>\<open>MESH\<close> and whose lowercased name contains one of the lowercased patterns, in
  scene order and without touching the scene; when handles are distinct, each such object
  is returned exactly once and no other object is returned.
\<close>

theorem find_meshes_by_pattern_exact:
  "find_meshes_by_pattern h patterns s = (Ok (map ob_id (filter (wanted h patterns) (objects s))), s)
   \<and> (distinct (map ob_id (objects s)) \<longrightarrow>
        (\<forall>ob \<in> set (objects s).
           count_list (map ob_id (filter (wanted h patterns) (objects s))) (ob_id ob)
             = (if wanted h patterns ob then 1 else 0)))"
  by (simp add: find_meshes_by_pattern_def gets_def fold_find_step count_distinct_filter)

theorem find_meshes_by_pattern_exact_witness:
  "distinct (map ob_id (objects example_scene))
   \<and> find_meshes_by_pattern example_host [''SKIN'', ''coeur''] example_scene = (Ok [11], example_scene)
   \<and> count_list [11] (ob_id (example_object 13 ''HEART'' (MeshData (example_mesh 13)) SceneCollection)) = 0"
  using find_meshes_by_pattern_exact [of example_host "[''SKIN'', ''coeur'']" example_scene]
  by (simp add: example_defs wanted_def ascii_lower_examples contains_sublist [symmetric])

subsection \<open>Stripping render data\<close>

text \<open>
  C6. Applied to a live mesh object, \<^verbatim>\<open>cleanup_mesh\<close> returns, and afterwards the object's
  mesh has no materials, no UV layers, no vertex-colour layers and no shape keys.
\<close>

theorem cleanup_mesh_clears:
  assumes "deref i s = (Ok ob, s)" and "ob_type ob = MESH"
  shows "\<exists>s' ob' m. cleanup_mesh (Some i) s = (Ok (), s') \<and> deref i s' = (Ok ob', s')
           \<and> ob_data ob' = MeshData m \<and> materials m = [] \<and> uv_layers m = []
           \<and> vertex_colors m = [] \<and> shape_keys m = None"
proof -
  obtain m0 where m0: "ob_data ob = MeshData m0"
    using assms(2) by (auto split: obdata.splits)
  let ?f = "\<lambda>ob. ob\<lparr>ob_data := cleanup_data (ob_data ob)\<rparr>"
  let ?s = "map_objects (at_id i ?f) s"
  have f: "\<And>x. ob_id (?f x) = ob_id x" by simp
  have run: "cleanup_mesh (Some i) s = (Ok (), ?s)"
    using assms(1) m0 update_live(1)[of ?f i s ob, OF f assms(1)]
    by (simp add: cleanup_mesh_def monad_defs)
  have d: "deref i ?s = (Ok (?f ob), ?s)"
    by (rule update_live(2)[of ?f i s ob, OF f assms(1)])
  obtain m where m: "cleanup_data (MeshData m0) = MeshData m"
    by (auto simp: cleanup_data_def)
  show ?thesis
    using run d m m0 cleanup_data_clears[OF m] by auto
qed

theorem cleanup_mesh_clears_witness:
  "deref 11 example_scene
     = (Ok (example_object 11 ''Skin.L'' (MeshData (example_mesh 11)) SceneCollection), example_scene)
   \<and> ob_type (example_object 11 ''Skin.L'' (MeshData (example_mesh 11)) SceneCollection) = MESH
   \<and> (\<exists>s' ob' m. cleanup_mesh (Some 11) example_scene = (Ok (), s') \<and> deref 11 s' = (Ok ob', s')
           \<and> ob_data ob' = MeshData m \<and> materials m = [] \<and> uv_layers m = []
           \<and> vertex_colors m = [] \<and> shape_keys m = None)"
proof -
  have d: "deref 11 example_scene
     = (Ok (example_object 11 ''Skin.L'' (MeshData (example_mesh 11)) SceneCollection), example_scene)"
    by (simp add: deref_def example_defs)
  have t: "ob_type (example_object 11 ''Skin.L'' (MeshData (example_mesh 11)) SceneCollection) = MESH"
    by (simp add: example_defs)
  show ?thesis using d t cleanup_mesh_clears [OF d t] by simp
qed


end
